theory Spec2Isabelle
  imports Main "HOL-Library.Word"
begin

section \<open>Python values, exceptions and process termination\<close>

text \<open>
  A Python \<open>float\<close> is an IEEE-754 double. The scripts never compute with the tuning
  values: they parse them, print them and hand them to the model. A float is therefore
  modelled as its 64-bit pattern, and "the same value" is equality of patterns.
  The literal \<open>0.5\<close> has sign 0, biased exponent 1022 and fraction 0.
\<close>

type_synonym pyfloat = "64 word"

definition half :: pyfloat where
  "half = push_bit 52 1022"

text \<open>
  Exceptions. \<open>error\<close> stands for the instances of Python's class \<open>Exception\<close>, which is
  what the collaborators (the float parser, the import system, the TTS library, the audio
  writer, the file system) raise: a \<open>MemoryError\<close>, or any other subclass given by its
  class name; both carry the text that \<open>str(e)\<close> returns. \<open>SystemExit\<close> is raised by
  \<open>sys.exit\<close> only and is not an instance of \<open>Exception\<close>, so \<open>except Exception\<close> lets
  it through. Asynchronous interrupts are outside the model.
\<close>

datatype error = MemoryError string | OtherError string string

fun str_error :: "error \<Rightarrow> string" where
  "str_error (MemoryError msg) = msg"
| "str_error (OtherError cls msg) = msg"

fun is_MemoryError :: "error \<Rightarrow> bool" where
  "is_MemoryError (MemoryError msg) = True"
| "is_MemoryError (OtherError cls msg) = False"

datatype exn = SystemExit int | Raised error

text \<open>
  How the interpreter ends the process once \<open>main()\<close> is over: a normal return ends the
  script with status 0, \<open>SystemExit n\<close> with status \<open>n\<close>, and any other exception
  escapes as an uncaught error (a traceback).
\<close>

datatype ending = Exited int | Traceback error

fun process_end :: "exn + unit \<Rightarrow> ending" where
  "process_end (Inr u) = Exited 0"
| "process_end (Inl (SystemExit n)) = Exited n"
| "process_end (Inl (Raised e)) = Traceback e"

text \<open>\<open>str(n)\<close> for a non-negative integer, as an f-string renders it.\<close>

definition digit_char :: "nat \<Rightarrow> char" where
  "digit_char d = ''0123456789'' ! d"

fun str_nat :: "nat \<Rightarrow> string" where
  "str_nat n = (if n < 10 then [digit_char n] else str_nat (n div 10) @ [digit_char (n mod 10)])"

declare str_nat.simps [simp del]

section \<open>The collaborators and the observable trace\<close>

text \<open>
  Everything the scripts call but do not implement is a field of the record \<open>world\<close>:
  Python's \<open>float()\<close> and the rendering of a float in an f-string, the import system,
  \<open>torch\<close>, the TTS model factory and its \<open>generate\<close>, \<open>os.path\<close> and \<open>os.makedirs\<close>,
  and \<open>torchaudio.save\<close>. A call that can raise returns an \<open>error\<close>; the calls that
  change the file system take the file-system state \<open>'fs\<close> and return the new one, also
  when they raise. \<open>generate\<close> takes \<open>cfg_weight\<close> as an option: \<open>None\<close> when the
  caller does not pass it. \<open>makedirs\<close> is \<open>os.makedirs(path, exist_ok=True)\<close>, the only
  way the scripts call it.
\<close>

record ('fs, 'model, 'wav) world =
  py_float :: "string \<Rightarrow> error + pyfloat"
  float_str :: "pyfloat \<Rightarrow> string"
  import_module :: "string \<Rightarrow> error option"
  set_num_threads :: "nat \<Rightarrow> error option"
  cuda_is_available :: "error + bool"
  from_pretrained :: "string \<Rightarrow> error + 'model"
  generate :: "'model \<Rightarrow> string \<Rightarrow> pyfloat \<Rightarrow> pyfloat option \<Rightarrow> error + 'wav"
  model_sr :: "'model \<Rightarrow> nat"
  dirname :: "string \<Rightarrow> string"
  path_exists :: "'fs \<Rightarrow> string \<Rightarrow> bool"
  makedirs :: "'fs \<Rightarrow> string \<Rightarrow> error option \<times> 'fs"
  save :: "'fs \<Rightarrow> string \<Rightarrow> 'wav \<Rightarrow> nat \<Rightarrow> error option \<times> 'fs"
  getsize :: "'fs \<Rightarrow> string \<Rightarrow> error + nat"

text \<open>What a run does that can be seen from outside, in order.\<close>

datatype event =
    Print string
  | Import string
  | FilterWarnings
  | GcCollect
  | SetNumThreads nat
  | CudaIsAvailable
  | FromPretrained string
  | Generate string pyfloat "pyfloat option"
  | DelModel
  | ReadSr
  | PathExists string
  | MakeDirs string
  | Save string nat
  | GetSize string

text \<open>The state of a run: the trace so far and the file system.\<close>

datatype 'fs state = State (trace: "event list") (fs: "'fs")

type_synonym ('a, 'fs) prog = "'fs state \<Rightarrow> (exn + 'a) \<times> 'fs state"

definition return :: "'a \<Rightarrow> ('a, 'fs) prog" where
  "return x s = (Inr x, s)"

definition raise :: "exn \<Rightarrow> ('a, 'fs) prog" where
  "raise e s = (Inl e, s)"

definition bind :: "('a, 'fs) prog \<Rightarrow> ('a \<Rightarrow> ('b, 'fs) prog) \<Rightarrow> ('b, 'fs) prog" where
  "bind m f s = (case m s of (Inl e, s') \<Rightarrow> (Inl e, s') | (Inr x, s') \<Rightarrow> f x s')"

definition seq :: "(unit, 'fs) prog \<Rightarrow> ('b, 'fs) prog \<Rightarrow> ('b, 'fs) prog" where
  "seq m k = bind m (\<lambda>u. k)"

text \<open>\<open>try: m except ...: h\<close>, the handler receiving whatever \<open>m\<close> raised.\<close>

definition try_except :: "('a, 'fs) prog \<Rightarrow> (exn \<Rightarrow> ('a, 'fs) prog) \<Rightarrow> ('a, 'fs) prog" where
  "try_except m h s = (case m s of (Inl e, s') \<Rightarrow> h e s' | (Inr x, s') \<Rightarrow> (Inr x, s'))"

definition emit :: "event \<Rightarrow> (unit, 'fs) prog" where
  "emit ev s = (Inr (), State (trace s @ [ev]) (fs s))"

definition print :: "string \<Rightarrow> (unit, 'fs) prog" where
  "print line = emit (Print line)"

definition sys_exit :: "int \<Rightarrow> ('a, 'fs) prog" where
  "sys_exit n = raise (SystemExit n)"

definition of_result :: "error + 'a \<Rightarrow> ('a, 'fs) prog" where
  "of_result r = (case r of Inl e \<Rightarrow> raise (Raised e) | Inr x \<Rightarrow> return x)"

definition of_status :: "error option \<Rightarrow> (unit, 'fs) prog" where
  "of_status r = (case r of Some e \<Rightarrow> raise (Raised e) | None \<Rightarrow> return ())"

definition py_import :: "('fs, 'model, 'wav) world \<Rightarrow> string \<Rightarrow> (unit, 'fs) prog" where
  "py_import w name = seq (emit (Import name)) (of_status (import_module w name))"

definition torch_set_num_threads :: "('fs, 'model, 'wav) world \<Rightarrow> nat \<Rightarrow> (unit, 'fs) prog" where
  "torch_set_num_threads w n = seq (emit (SetNumThreads n)) (of_status (set_num_threads w n))"

definition torch_cuda_is_available :: "('fs, 'model, 'wav) world \<Rightarrow> (bool, 'fs) prog" where
  "torch_cuda_is_available w = seq (emit CudaIsAvailable) (of_result (cuda_is_available w))"

definition ChatterboxTTS_from_pretrained ::
    "('fs, 'model, 'wav) world \<Rightarrow> string \<Rightarrow> ('model, 'fs) prog" where
  "ChatterboxTTS_from_pretrained w device =
     seq (emit (FromPretrained device)) (of_result (from_pretrained w device))"

definition model_generate ::
    "('fs, 'model, 'wav) world \<Rightarrow> 'model \<Rightarrow> string \<Rightarrow> pyfloat \<Rightarrow> pyfloat option \<Rightarrow> ('wav, 'fs) prog" where
  "model_generate w model text exaggeration cfg_weight =
     seq (emit (Generate text exaggeration cfg_weight))
         (of_result (generate w model text exaggeration cfg_weight))"

definition read_sr :: "('fs, 'model, 'wav) world \<Rightarrow> 'model \<Rightarrow> (nat, 'fs) prog" where
  "read_sr w model = seq (emit ReadSr) (return (model_sr w model))"

definition os_path_exists :: "('fs, 'model, 'wav) world \<Rightarrow> string \<Rightarrow> (bool, 'fs) prog" where
  "os_path_exists w path =
     seq (emit (PathExists path)) (\<lambda>s. (Inr (path_exists w (fs s) path), s))"

definition os_path_getsize :: "('fs, 'model, 'wav) world \<Rightarrow> string \<Rightarrow> (nat, 'fs) prog" where
  "os_path_getsize w path =
     seq (emit (GetSize path)) (\<lambda>s. of_result (getsize w (fs s) path) s)"

definition fs_call :: "('fs \<Rightarrow> error option \<times> 'fs) \<Rightarrow> (unit, 'fs) prog" where
  "fs_call f s = (case f (fs s) of (r, fs') \<Rightarrow> of_status r (State (trace s) fs'))"

definition os_makedirs :: "('fs, 'model, 'wav) world \<Rightarrow> string \<Rightarrow> (unit, 'fs) prog" where
  "os_makedirs w path = seq (emit (MakeDirs path)) (fs_call (\<lambda>f. makedirs w f path))"

definition torchaudio_save ::
    "('fs, 'model, 'wav) world \<Rightarrow> string \<Rightarrow> 'wav \<Rightarrow> nat \<Rightarrow> (unit, 'fs) prog" where
  "torchaudio_save w path wav sr =
     seq (emit (Save path sr)) (fs_call (\<lambda>f. save w f path wav sr))"

section \<open>The two scripts\<close>

text \<open>
  \<open>argv\<close> is \<open>sys.argv\<close>: the script's name, then the positional arguments. An element
  of a \<open>string\<close> stands for one character of the Python \<open>str\<close>, so \<open>text[:50]\<close> is
  \<open>take 50 text\<close>. \<open>argv ! 1\<close> and \<open>argv ! 2\<close> are read only after the length check.
  Importing the standard-library module \<open>warnings\<close> and \<open>print\<close> do not fail; the
  imports of \<open>torch\<close>, \<open>chatterbox.tts\<close> and \<open>torchaudio\<close> fail when the world says so.
\<close>

subsection \<open>bin/chatterbox-tts.py\<close>

definition usage1 :: string where
  "usage1 = ''Usage: python chatterbox-tts.py \"text\" output.wav [exaggeration] [cfg]''"

text \<open>The body of the \<open>try\<close> statement (lines 38 to 68).\<close>

definition try_body1 ::
    "('fs, 'model, 'wav) world \<Rightarrow> string \<Rightarrow> string \<Rightarrow> pyfloat \<Rightarrow> pyfloat \<Rightarrow> (unit, 'fs) prog" where
  "try_body1 w text output_path exaggeration cfg =
     seq (py_import w ''torch'')
    (seq (py_import w ''chatterbox.tts'')
    (bind (torch_cuda_is_available w) (\<lambda>available.
     let device = (if available then ''cuda'' else ''cpu'') in
     seq (print (''[Chatterbox] Using device: '' @ device))
    (seq (print ''[Chatterbox] Loading model...'')
    (bind (ChatterboxTTS_from_pretrained w device) (\<lambda>model.
     seq (print ''[Chatterbox] Generating audio...'')
    (bind (model_generate w model text exaggeration (Some cfg)) (\<lambda>wav.
     seq (py_import w ''torchaudio'')
    (let output_dir = dirname w output_path in
     seq (if output_dir \<noteq> [] then
            bind (os_path_exists w output_dir) (\<lambda>there.
              if \<not> there then os_makedirs w output_dir else return ())
          else return ())
    (bind (read_sr w model) (\<lambda>sr.
     seq (torchaudio_save w output_path wav sr)
    (seq (print (''[Chatterbox] SUCCESS: '' @ output_path))
    (bind (read_sr w model) (\<lambda>sr'.
     print (''[Chatterbox] Sample rate: '' @ str_nat sr')))))))))))))))"

text \<open>\<open>except Exception as e\<close> (lines 70 to 72): \<open>SystemExit\<close> is not caught.\<close>

definition except1 :: "exn \<Rightarrow> (unit, 'fs) prog" where
  "except1 e =
     (case e of
        Raised err \<Rightarrow> seq (print (''[Chatterbox] ERROR: '' @ str_error err)) (sys_exit 1)
      | SystemExit n \<Rightarrow> raise e)"

definition main1 :: "('fs, 'model, 'wav) world \<Rightarrow> string list \<Rightarrow> (unit, 'fs) prog" where
  "main1 w argv =
    (if length argv < 3 then
       seq (print usage1) (sys_exit 1)
     else
       let text = argv ! 1;
           output_path = argv ! 2
       in
       bind (if length argv > 3 then of_result (py_float w (argv ! 3)) else return half) (\<lambda>exaggeration.
       bind (if length argv > 4 then of_result (py_float w (argv ! 4)) else return half) (\<lambda>cfg.
       seq (emit (Import ''warnings''))
      (seq (emit FilterWarnings)
      (seq (print ''[Chatterbox] Generating speech...'')
      (seq (print (''[Chatterbox] Text: '' @ take 50 text @ ''...''))
      (seq (print (''[Chatterbox] Exaggeration: '' @ float_str w exaggeration
                    @ '', CFG: '' @ float_str w cfg))
      (try_except (try_body1 w text output_path exaggeration cfg) except1))))))))"

subsection \<open>bin/run-chatterbox.py\<close>

text \<open>
  The module imports \<open>warnings\<close> and silences it before \<open>main()\<close> is called; \<open>main2\<close>
  is the function \<open>main\<close>.
\<close>

definition usage2 :: string where
  "usage2 = ''Usage: python run-chatterbox.py <text> <output.wav> [exaggeration]''"

text \<open>The body of the \<open>try\<close> statement (lines 28 to 61).\<close>

definition try_body2 ::
    "('fs, 'model, 'wav) world \<Rightarrow> string \<Rightarrow> string \<Rightarrow> pyfloat \<Rightarrow> (unit, 'fs) prog" where
  "try_body2 w text output_path exaggeration =
     seq (py_import w ''torch'')
    (seq (torch_set_num_threads w 2)
    (seq (print ''[Chatterbox] Loading model (this may take a moment)...'')
    (seq (py_import w ''chatterbox.tts'')
    (let device = ''cpu'' in
     bind (ChatterboxTTS_from_pretrained w device) (\<lambda>model.
     seq (print ''[Chatterbox] Model loaded, generating audio...'')
    (bind (model_generate w model text exaggeration None) (\<lambda>wav.
     seq (emit DelModel)
    (seq (emit GcCollect)
    (seq (py_import w ''torchaudio'')
    (seq (os_makedirs w (let d = dirname w output_path in if d \<noteq> [] then d else ''.''))
    (seq (torchaudio_save w output_path wav 24000)
    (bind (os_path_exists w output_path) (\<lambda>there.
     if there then
       bind (os_path_getsize w output_path) (\<lambda>size.
       seq (print (''[Chatterbox] SUCCESS! Saved '' @ str_nat size @ '' bytes to '' @ output_path))
           (sys_exit 0))
     else
       seq (print ''[Chatterbox] ERROR: File not created'') (sys_exit 1))))))))))))))"

text \<open>
  \<open>except MemoryError\<close> first, then \<open>except Exception as e\<close> (lines 63 to 68);
  \<open>SystemExit\<close> is caught by neither.
\<close>

definition except2 :: "exn \<Rightarrow> (unit, 'fs) prog" where
  "except2 e =
     (case e of
        Raised err \<Rightarrow>
          if is_MemoryError err then
            seq (print ''[Chatterbox] ERROR: Out of memory. Close some applications and try again.'')
                (sys_exit 2)
          else
            seq (print (''[Chatterbox] ERROR: '' @ str_error err)) (sys_exit 1)
      | SystemExit n \<Rightarrow> raise e)"

definition main2 :: "('fs, 'model, 'wav) world \<Rightarrow> string list \<Rightarrow> (unit, 'fs) prog" where
  "main2 w argv =
    (if length argv < 3 then
       seq (print usage2) (sys_exit 1)
     else
       let text = argv ! 1;
           output_path = argv ! 2
       in
       bind (if length argv > 3 then of_result (py_float w (argv ! 3)) else return half) (\<lambda>exaggeration.
       seq (emit GcCollect)
      (seq (print (''[Chatterbox] Text: '' @ take 50 text @ ''...''))
      (seq (print (''[Chatterbox] Output: '' @ output_path))
      (try_except (try_body2 w text output_path exaggeration) except2)))))"

section \<open>Runs and what is observed of them\<close>

definition start :: "'fs \<Rightarrow> 'fs state" where
  "start f = State [] f"

definition status :: "(exn + unit) \<times> 'fs state \<Rightarrow> ending" where
  "status r = process_end (fst r)"

definition events :: "(exn + unit) \<times> 'fs state \<Rightarrow> event list" where
  "events r = trace (snd r)"

definition final_fs :: "(exn + unit) \<times> 'fs state \<Rightarrow> 'fs" where
  "final_fs r = fs (snd r)"

text \<open>Projections of a trace: the calls of one kind, in the order they were made.\<close>

fun generate_call :: "event \<Rightarrow> (string \<times> pyfloat \<times> pyfloat option) option" where
  "generate_call (Generate text exaggeration cfg_weight) = Some (text, exaggeration, cfg_weight)"
| "generate_call ev = None"

definition generate_calls :: "event list \<Rightarrow> (string \<times> pyfloat \<times> pyfloat option) list" where
  "generate_calls evs = List.map_filter generate_call evs"

fun load_device :: "event \<Rightarrow> string option" where
  "load_device (FromPretrained device) = Some device"
| "load_device ev = None"

definition load_devices :: "event list \<Rightarrow> string list" where
  "load_devices evs = List.map_filter load_device evs"

fun is_fs_call :: "event \<Rightarrow> bool" where
  "is_fs_call (PathExists path) = True"
| "is_fs_call (MakeDirs path) = True"
| "is_fs_call (Save path sr) = True"
| "is_fs_call (GetSize path) = True"
| "is_fs_call ev = False"

definition fs_calls :: "event list \<Rightarrow> event list" where
  "fs_calls evs = filter is_fs_call evs"

fun save_call :: "event \<Rightarrow> (string \<times> nat) option" where
  "save_call (Save path sr) = Some (path, sr)"
| "save_call ev = None"

definition save_calls :: "event list \<Rightarrow> (string \<times> nat) list" where
  "save_calls evs = List.map_filter save_call evs"

section \<open>Stub collaborators\<close>

text \<open>
  A world to run the scripts in: every import and call succeeds, no accelerator, the file
  system is the list of the paths that exist, and the model reports a sample rate of 44100.
  The float parser knows \<open>0.8\<close> and \<open>0.3\<close> (as the doubles nearest to them) and rejects
  everything else. \<open>posix_dirname\<close> is \<open>os.path.dirname\<close> of \<open>posixpath\<close>.
\<close>

definition rstrip_slash :: "string \<Rightarrow> string" where
  "rstrip_slash p = rev (dropWhile (\<lambda>c. c = CHR ''/'') (rev p))"

definition posix_dirname :: "string \<Rightarrow> string" where
  "posix_dirname p =
     (let head = rev (dropWhile (\<lambda>c. c \<noteq> CHR ''/'') (rev p))
      in if head \<noteq> [] \<and> \<not> list_all (\<lambda>c. c = CHR ''/'') head then rstrip_slash head else head)"

definition stub_float :: "string \<Rightarrow> error + pyfloat" where
  "stub_float str =
     (if str = ''0.8'' then Inr 0x3FE999999999999A
      else if str = ''0.3'' then Inr 0x3FD3333333333333
      else Inl (OtherError ''ValueError'' (''could not convert string to float: '' @ str)))"

definition stub_float_str :: "pyfloat \<Rightarrow> string" where
  "stub_float_str x =
     (if x = half then ''0.5''
      else if x = 0x3FE999999999999A then ''0.8''
      else if x = 0x3FD3333333333333 then ''0.3''
      else ''?'')"

definition stub_world :: "(string list, unit, nat) world" where
  "stub_world =
     \<lparr> py_float = stub_float,
       float_str = stub_float_str,
       import_module = (\<lambda>name. None),
       set_num_threads = (\<lambda>n. None),
       cuda_is_available = Inr False,
       from_pretrained = (\<lambda>device. Inr ()),
       generate = (\<lambda>model text exaggeration cfg_weight. Inr (length text)),
       model_sr = (\<lambda>model. 44100),
       dirname = posix_dirname,
       path_exists = (\<lambda>f path. path \<in> set f),
       makedirs = (\<lambda>f path. (None, path # f)),
       save = (\<lambda>f path wav sr. (None, path # f)),
       getsize = (\<lambda>f path. if path \<in> set f then Inr 96044
                             else Inl (OtherError ''FileNotFoundError'' path)) \<rparr>"

text \<open>The same world with a model whose \<open>generate\<close> raises.\<close>

definition stub_generate_raises :: "error \<Rightarrow> (string list, unit, nat) world" where
  "stub_generate_raises e = stub_world\<lparr>generate := (\<lambda>model text exaggeration cfg_weight. Inl e)\<rparr>"

text \<open>The same world with an audio writer that returns without writing a file.\<close>

definition stub_save_writes_nothing :: "(string list, unit, nat) world" where
  "stub_save_writes_nothing = stub_world\<lparr>save := (\<lambda>f path wav sr. (None, f))\<rparr>"

text \<open>The same world with an accelerator.\<close>

definition stub_with_cuda :: "(string list, unit, nat) world" where
  "stub_with_cuda = stub_world\<lparr>cuda_is_available := Inr True\<rparr>"

section \<open>Reasoning about every run\<close>

text \<open>
  \<open>wp m Q s\<close>: the outcome of running \<open>m\<close> from \<open>s\<close> satisfies \<open>Q\<close>. The equations
  for \<open>wp\<close> below walk through a program from its first statement, with one case for
  each way a collaborator can answer.
\<close>

definition wp :: "('a, 'fs) prog \<Rightarrow> ((exn + 'a) \<times> 'fs state \<Rightarrow> bool) \<Rightarrow> 'fs state \<Rightarrow> bool" where
  "wp m Q s \<longleftrightarrow> Q (m s)"

lemmas prog_defs =
  return_def raise_def bind_def seq_def try_except_def emit_def print_def sys_exit_def
  of_result_def of_status_def py_import_def torch_set_num_threads_def
  torch_cuda_is_available_def ChatterboxTTS_from_pretrained_def model_generate_def
  read_sr_def os_path_exists_def os_path_getsize_def fs_call_def os_makedirs_def
  torchaudio_save_def

lemmas run_defs = start_def status_def events_def final_fs_def

lemmas proj_defs =
  generate_calls_def load_devices_def save_calls_def fs_calls_def List.map_filter_simps

lemmas stub_defs =
  stub_world_def stub_float_def stub_float_str_def posix_dirname_def rstrip_slash_def
  stub_generate_raises_def stub_save_writes_nothing_def stub_with_cuda_def half_def

section \<open>Running a program one statement at a time\<close>

text \<open>
  One equation for each kind of statement followed by the rest \<open>k\<close> of the program: what
  is added to the trace, and whether \<open>k\<close> runs.
\<close>

lemma run_seq_emit: "seq (emit ev) k s = k (State (trace s @ [ev]) (fs s))"
  by (simp add: prog_defs)
lemma run_seq_print: "seq (print l) k s = k (State (trace s @ [Print l]) (fs s))"
  by (simp add: prog_defs)
lemma run_print: "print l s = (Inr (), State (trace s @ [Print l]) (fs s))"
  by (simp add: prog_defs)
lemma run_sys_exit: "sys_exit n s = (Inl (SystemExit n), s)"
  by (simp add: prog_defs)
lemma run_raise: "raise e s = (Inl e, s)"
  by (simp add: prog_defs)
lemma run_return: "return x s = (Inr x, s)"
  by (simp add: prog_defs)
lemma run_bind_return: "bind (return x) f s = f x s"
  by (simp add: prog_defs)
lemma run_seq_return: "seq (return ()) k s = k s"
  by (simp add: prog_defs)
lemma run_bind_of_result:
  "bind (of_result r) f s = (case r of Inl e \<Rightarrow> (Inl (Raised e), s) | Inr x \<Rightarrow> f x s)"
  by (simp add: prog_defs split: sum.split)
lemma run_bind_if: "bind (if c then a else b) f s = (if c then bind a f s else bind b f s)"
  by simp
lemma run_seq_if: "seq (if c then a else b) k s = (if c then seq a k s else seq b k s)"
  by simp
lemma run_seq_bind: "seq (bind m f) k s = bind m (\<lambda>x. seq (f x) k) s"
  by (simp add: prog_defs split: sum.split prod.split)
lemma run_seq_import:
  "seq (py_import w n) k s =
     (case import_module w n of
        None \<Rightarrow> k (State (trace s @ [Import n]) (fs s))
      | Some e \<Rightarrow> (Inl (Raised e), State (trace s @ [Import n]) (fs s)))"
  by (simp add: prog_defs split: option.split)
lemma run_seq_threads:
  "seq (torch_set_num_threads w n) k s =
     (case set_num_threads w n of
        None \<Rightarrow> k (State (trace s @ [SetNumThreads n]) (fs s))
      | Some e \<Rightarrow> (Inl (Raised e), State (trace s @ [SetNumThreads n]) (fs s)))"
  by (simp add: prog_defs split: option.split)
lemma run_bind_cuda:
  "bind (torch_cuda_is_available w) k s =
     (case cuda_is_available w of
        Inr b \<Rightarrow> k b (State (trace s @ [CudaIsAvailable]) (fs s))
      | Inl e \<Rightarrow> (Inl (Raised e), State (trace s @ [CudaIsAvailable]) (fs s)))"
  by (simp add: prog_defs split: sum.split)
lemma run_bind_load:
  "bind (ChatterboxTTS_from_pretrained w d) k s =
     (case from_pretrained w d of
        Inr m \<Rightarrow> k m (State (trace s @ [FromPretrained d]) (fs s))
      | Inl e \<Rightarrow> (Inl (Raised e), State (trace s @ [FromPretrained d]) (fs s)))"
  by (simp add: prog_defs split: sum.split)
lemma run_bind_generate:
  "bind (model_generate w m t x c) k s =
     (case generate w m t x c of
        Inr wav \<Rightarrow> k wav (State (trace s @ [Generate t x c]) (fs s))
      | Inl e \<Rightarrow> (Inl (Raised e), State (trace s @ [Generate t x c]) (fs s)))"
  by (simp add: prog_defs split: sum.split)
lemma run_bind_read_sr:
  "bind (read_sr w m) k s = k (model_sr w m) (State (trace s @ [ReadSr]) (fs s))"
  by (simp add: prog_defs)
lemma run_bind_exists:
  "bind (os_path_exists w p) k s = k (path_exists w (fs s) p) (State (trace s @ [PathExists p]) (fs s))"
  by (simp add: prog_defs)
lemma run_bind_getsize:
  "bind (os_path_getsize w p) k s =
     (case getsize w (fs s) p of
        Inr n \<Rightarrow> k n (State (trace s @ [GetSize p]) (fs s))
      | Inl e \<Rightarrow> (Inl (Raised e), State (trace s @ [GetSize p]) (fs s)))"
  by (simp add: prog_defs split: sum.split)
lemma run_seq_makedirs:
  "seq (os_makedirs w p) k s =
     (case makedirs w (fs s) p of
        (None, f') \<Rightarrow> k (State (trace s @ [MakeDirs p]) f')
      | (Some e, f') \<Rightarrow> (Inl (Raised e), State (trace s @ [MakeDirs p]) f'))"
  by (simp add: prog_defs split: option.split prod.split)
lemma run_seq_save:
  "seq (torchaudio_save w p wav sr) k s =
     (case save w (fs s) p wav sr of
        (None, f') \<Rightarrow> k (State (trace s @ [Save p sr]) f')
      | (Some e, f') \<Rightarrow> (Inl (Raised e), State (trace s @ [Save p sr]) f'))"
  by (simp add: prog_defs split: option.split prod.split)

lemmas run_simps = run_seq_emit run_seq_print run_print run_sys_exit run_raise run_return
  run_bind_return run_seq_return
  run_bind_of_result run_bind_if run_seq_if run_seq_bind run_seq_import run_seq_threads
  run_bind_cuda run_bind_load run_bind_generate run_bind_read_sr run_bind_exists
  run_bind_getsize run_seq_makedirs run_seq_save


lemma run_try_except:
  "try_except m h s = (case m s of (Inl e, s') \<Rightarrow> h e s' | (Inr x, s') \<Rightarrow> (Inr x, s'))"
  by (simp add: try_except_def)

lemmas main_defs = main1_def main2_def try_body1_def try_body2_def except1_def except2_def

lemma wp_return: "wp (return x) Q s = Q (Inr x, s)"
  by (simp add: wp_def prog_defs)
lemma wp_raise: "wp (raise e) Q s = Q (Inl e, s)"
  by (simp add: wp_def prog_defs)
lemma wp_sys_exit: "wp (sys_exit n) Q s = Q (Inl (SystemExit n), s)"
  by (simp add: wp_def prog_defs)
lemma wp_bind:
  "wp (bind m f) Q s =
     wp m (\<lambda>r. case r of (Inl e, s') \<Rightarrow> Q (Inl e, s') | (Inr x, s') \<Rightarrow> wp (f x) Q s') s"
  by (simp add: wp_def bind_def split: prod.split sum.split)
lemma wp_seq:
  "wp (seq m k) Q s =
     wp m (\<lambda>r. case r of (Inl e, s') \<Rightarrow> Q (Inl e, s') | (Inr x, s') \<Rightarrow> wp k Q s') s"
  by (simp add: wp_def bind_def seq_def split: prod.split sum.split)
lemma wp_try_except:
  "wp (try_except m h) Q s =
     wp m (\<lambda>r. case r of (Inl e, s') \<Rightarrow> wp (h e) Q s' | (Inr x, s') \<Rightarrow> Q (Inr x, s')) s"
  by (simp add: wp_def try_except_def split: prod.split sum.split)
lemma wp_if: "wp (if c then a else b) Q s = ((c \<longrightarrow> wp a Q s) \<and> (\<not> c \<longrightarrow> wp b Q s))"
  by simp
lemma wp_emit: "wp (emit ev) Q s = Q (Inr (), State (trace s @ [ev]) (fs s))"
  by (simp add: wp_def prog_defs)
lemma wp_print: "wp (print l) Q s = Q (Inr (), State (trace s @ [Print l]) (fs s))"
  by (simp add: wp_def prog_defs)
lemma wp_of_result:
  "wp (of_result r) Q s =
     ((\<forall>e. r = Inl e \<longrightarrow> Q (Inl (Raised e), s)) \<and> (\<forall>x. r = Inr x \<longrightarrow> Q (Inr x, s)))"
  by (cases r) (simp_all add: wp_def prog_defs)
lemma wp_py_import:
  "wp (py_import w n) Q s =
     ((import_module w n = None \<longrightarrow> Q (Inr (), State (trace s @ [Import n]) (fs s))) \<and>
      (\<forall>e. import_module w n = Some e \<longrightarrow> Q (Inl (Raised e), State (trace s @ [Import n]) (fs s))))"
  by (cases "import_module w n") (simp_all add: wp_def prog_defs)
lemma wp_set_num_threads:
  "wp (torch_set_num_threads w n) Q s =
     ((set_num_threads w n = None \<longrightarrow> Q (Inr (), State (trace s @ [SetNumThreads n]) (fs s))) \<and>
      (\<forall>e. set_num_threads w n = Some e \<longrightarrow>
            Q (Inl (Raised e), State (trace s @ [SetNumThreads n]) (fs s))))"
  by (cases "set_num_threads w n") (simp_all add: wp_def prog_defs)
lemma wp_cuda:
  "wp (torch_cuda_is_available w) Q s =
     ((\<forall>b. cuda_is_available w = Inr b \<longrightarrow> Q (Inr b, State (trace s @ [CudaIsAvailable]) (fs s))) \<and>
      (\<forall>e. cuda_is_available w = Inl e \<longrightarrow>
            Q (Inl (Raised e), State (trace s @ [CudaIsAvailable]) (fs s))))"
  by (cases "cuda_is_available w") (simp_all add: wp_def prog_defs)
lemma wp_from_pretrained:
  "wp (ChatterboxTTS_from_pretrained w d) Q s =
     ((\<forall>m. from_pretrained w d = Inr m \<longrightarrow> Q (Inr m, State (trace s @ [FromPretrained d]) (fs s))) \<and>
      (\<forall>e. from_pretrained w d = Inl e \<longrightarrow>
            Q (Inl (Raised e), State (trace s @ [FromPretrained d]) (fs s))))"
  by (cases "from_pretrained w d") (simp_all add: wp_def prog_defs)
lemma wp_generate:
  "wp (model_generate w m t x c) Q s =
     ((\<forall>wav. generate w m t x c = Inr wav \<longrightarrow> Q (Inr wav, State (trace s @ [Generate t x c]) (fs s))) \<and>
      (\<forall>e. generate w m t x c = Inl e \<longrightarrow>
            Q (Inl (Raised e), State (trace s @ [Generate t x c]) (fs s))))"
  by (cases "generate w m t x c") (simp_all add: wp_def prog_defs)
lemma wp_read_sr:
  "wp (read_sr w m) Q s = Q (Inr (model_sr w m), State (trace s @ [ReadSr]) (fs s))"
  by (simp add: wp_def prog_defs)
lemma wp_exists:
  "wp (os_path_exists w p) Q s =
     Q (Inr (path_exists w (fs s) p), State (trace s @ [PathExists p]) (fs s))"
  by (simp add: wp_def prog_defs)
lemma wp_getsize:
  "wp (os_path_getsize w p) Q s =
     ((\<forall>n. getsize w (fs s) p = Inr n \<longrightarrow> Q (Inr n, State (trace s @ [GetSize p]) (fs s))) \<and>
      (\<forall>e. getsize w (fs s) p = Inl e \<longrightarrow> Q (Inl (Raised e), State (trace s @ [GetSize p]) (fs s))))"
  by (cases "getsize w (fs s) p") (simp_all add: wp_def prog_defs)
lemma wp_makedirs:
  "wp (os_makedirs w p) Q s =
     ((\<forall>f'. makedirs w (fs s) p = (None, f') \<longrightarrow> Q (Inr (), State (trace s @ [MakeDirs p]) f')) \<and>
      (\<forall>e f'. makedirs w (fs s) p = (Some e, f') \<longrightarrow>
            Q (Inl (Raised e), State (trace s @ [MakeDirs p]) f')))"
  by (cases "makedirs w (fs s) p"; cases "fst (makedirs w (fs s) p)") (simp_all add: wp_def prog_defs)
lemma wp_save:
  "wp (torchaudio_save w p wav sr) Q s =
     ((\<forall>f'. save w (fs s) p wav sr = (None, f') \<longrightarrow> Q (Inr (), State (trace s @ [Save p sr]) f')) \<and>
      (\<forall>e f'. save w (fs s) p wav sr = (Some e, f') \<longrightarrow>
            Q (Inl (Raised e), State (trace s @ [Save p sr]) f')))"
  by (cases "save w (fs s) p wav sr"; cases "fst (save w (fs s) p wav sr)") (simp_all add: wp_def prog_defs)

lemmas wp_simps = wp_return wp_raise wp_sys_exit wp_bind wp_seq wp_try_except wp_if wp_emit
  wp_print wp_of_result wp_py_import wp_set_num_threads wp_cuda wp_from_pretrained wp_generate
  wp_read_sr wp_exists wp_getsize wp_makedirs wp_save

lemma wpI: "wp m Q s \<Longrightarrow> Q (m s)"
  by (simp add: wp_def)

text \<open>
  Once the arguments are there and the numbers have parsed, either \<open>main\<close> prints its
  banner and runs its \<open>try\<close> statement.
\<close>

lemma wp_main1:
  assumes "3 \<le> length argv"
    and "if 3 < length argv then py_float w (argv ! 3) = Inr exaggeration else exaggeration = half"
    and "if 4 < length argv then py_float w (argv ! 4) = Inr cfg else cfg = half"
  shows "wp (main1 w argv) Q s =
         wp (try_except (try_body1 w (argv ! 1) (argv ! 2) exaggeration cfg) except1) Q
            (State (trace s @
               [Import ''warnings'', FilterWarnings,
                Print ''[Chatterbox] Generating speech...'',
                Print (''[Chatterbox] Text: '' @ take 50 (argv ! 1) @ ''...''),
                Print (''[Chatterbox] Exaggeration: '' @ float_str w exaggeration
                         @ '', CFG: '' @ float_str w cfg)]) (fs s))"
proof (cases "3 < length argv"; cases "4 < length argv")
qed (use assms in \<open>simp_all add: wp_def main1_def run_simps Let_def\<close>)

lemma wp_main2:
  assumes "3 \<le> length argv"
    and "if 3 < length argv then py_float w (argv ! 3) = Inr exaggeration else exaggeration = half"
  shows "wp (main2 w argv) Q s =
         wp (try_except (try_body2 w (argv ! 1) (argv ! 2) exaggeration) except2) Q
            (State (trace s @
               [GcCollect,
                Print (''[Chatterbox] Text: '' @ take 50 (argv ! 1) @ ''...''),
                Print (''[Chatterbox] Output: '' @ argv ! 2)]) (fs s))"
proof (cases "3 < length argv")
qed (use assms in \<open>simp_all add: wp_def main2_def run_simps Let_def\<close>)

lemmas body_defs = try_body1_def try_body2_def except1_def except2_def

lemma main2_ignores_model_sr: "main2 (w\<lparr>model_sr := reported\<rparr>) argv = main2 w argv"
  unfolding main2_def try_body2_def py_import_def torch_set_num_threads_def
    ChatterboxTTS_from_pretrained_def model_generate_def os_makedirs_def torchaudio_save_def
    os_path_exists_def os_path_getsize_def
  by (simp cong: if_cong)

section \<open>Missing arguments\<close>

text \<open>
  C1. With fewer than two positional arguments (\<open>len(sys.argv) < 3\<close>) either script prints
  its usage line and exits with status 1. The usage line is the only event of the run:
  nothing is imported, no model is loaded, the file system is untouched.
\<close>

theorem missing_arguments_usage_exit_1:
  "length argv < 3 \<Longrightarrow>
     status (main1 w argv (start f)) = Exited 1 \<and>
     events (main1 w argv (start f)) = [Print usage1] \<and>
     final_fs (main1 w argv (start f)) = f \<and>
     status (main2 w argv (start f)) = Exited 1 \<and>
     events (main2 w argv (start f)) = [Print usage2] \<and>
     final_fs (main2 w argv (start f)) = f"
  by (simp add: main1_def main2_def run_simps run_defs)

theorem missing_arguments_usage_exit_1_witness:
  "length [''run-chatterbox.py'', ''Hello''] < 3 \<and>
   status (main1 stub_world [''run-chatterbox.py'', ''Hello''] (start [''out''])) = Exited 1 \<and>
   events (main1 stub_world [''run-chatterbox.py'', ''Hello''] (start [''out''])) = [Print usage1] \<and>
   final_fs (main1 stub_world [''run-chatterbox.py'', ''Hello''] (start [''out''])) = [''out''] \<and>
   status (main2 stub_world [''run-chatterbox.py'', ''Hello''] (start [''out''])) = Exited 1 \<and>
   events (main2 stub_world [''run-chatterbox.py'', ''Hello''] (start [''out''])) = [Print usage2] \<and>
   final_fs (main2 stub_world [''run-chatterbox.py'', ''Hello''] (start [''out''])) = [''out'']"
  using missing_arguments_usage_exit_1 [of "[''run-chatterbox.py'', ''Hello'']" stub_world "[''out'']"]
  by simp

section \<open>Tuning parameters\<close>

text \<open>
  C2. Let \<open>exaggeration\<close> be 0.5 when \<open>argv[3]\<close> is absent and the float parsed from it
  otherwise, and \<open>cfg\<close> likewise from \<open>argv[4]\<close>. The first script calls \<open>generate\<close>
  with no other arguments than the text, \<open>exaggeration\<close> and \<open>cfg_weight = cfg\<close>; the
  second with no other than the text and \<open>exaggeration\<close>, passing no \<open>cfg_weight\<close>.
  When the imports and the model load succeed, the call is made, exactly once.
\<close>

theorem tuning_values_reach_generate:
  assumes args: "3 \<le> length argv"
    and ex: "if 3 < length argv then py_float w (argv ! 3) = Inr exaggeration else exaggeration = half"
  shows
    "((if 4 < length argv then py_float w (argv ! 4) = Inr cfg else cfg = half) \<longrightarrow>
        set (generate_calls (events (main1 w argv (start f)))) \<subseteq> {(argv ! 1, exaggeration, Some cfg)} \<and>
        (import_module w ''torch'' = None \<and> import_module w ''chatterbox.tts'' = None \<and>
         cuda_is_available w = Inr available \<and>
         from_pretrained w (if available then ''cuda'' else ''cpu'') = Inr model1
         \<longrightarrow> generate_calls (events (main1 w argv (start f))) = [(argv ! 1, exaggeration, Some cfg)])) \<and>
     set (generate_calls (events (main2 w argv (start f)))) \<subseteq> {(argv ! 1, exaggeration, None)} \<and>
     (import_module w ''torch'' = None \<and> set_num_threads w 2 = None \<and>
      import_module w ''chatterbox.tts'' = None \<and> from_pretrained w ''cpu'' = Inr model2
      \<longrightarrow> generate_calls (events (main2 w argv (start f))) = [(argv ! 1, exaggeration, None)])"
proof -
  have sub1: "set (generate_calls (events (main1 w argv (start f)))) \<subseteq> {(argv ! 1, exaggeration, Some cfg)}"
    if "if 4 < length argv then py_float w (argv ! 4) = Inr cfg else cfg = half"
    unfolding events_def
    by (rule wpI [where Q = "\<lambda>r. set (generate_calls (trace (snd r))) \<subseteq> {(argv ! 1, exaggeration, Some cfg)}"])
       (use args ex that in \<open>simp add: main_defs wp_simps Let_def start_def generate_calls_def\<close>)
  have run1: "generate_calls (events (main1 w argv (start f))) = [(argv ! 1, exaggeration, Some cfg)]"
    if "if 4 < length argv then py_float w (argv ! 4) = Inr cfg else cfg = half"
      and "import_module w ''torch'' = None" "import_module w ''chatterbox.tts'' = None"
      and "cuda_is_available w = Inr available"
      and "from_pretrained w (if available then ''cuda'' else ''cpu'') = Inr model1"
    unfolding events_def
    by (rule wpI [where Q = "\<lambda>r. generate_calls (trace (snd r)) = [(argv ! 1, exaggeration, Some cfg)]"])
       (use args ex that in \<open>simp add: main_defs wp_simps Let_def start_def generate_calls_def\<close>)
  have sub2: "set (generate_calls (events (main2 w argv (start f)))) \<subseteq> {(argv ! 1, exaggeration, None)}"
    unfolding events_def
    by (rule wpI [where Q = "\<lambda>r. set (generate_calls (trace (snd r))) \<subseteq> {(argv ! 1, exaggeration, None)}"])
       (use args ex in \<open>simp add: main_defs wp_simps Let_def start_def generate_calls_def\<close>)
  have run2: "generate_calls (events (main2 w argv (start f))) = [(argv ! 1, exaggeration, None)]"
    if "import_module w ''torch'' = None" "set_num_threads w 2 = None"
      and "import_module w ''chatterbox.tts'' = None" "from_pretrained w ''cpu'' = Inr model2"
    unfolding events_def
    by (rule wpI [where Q = "\<lambda>r. generate_calls (trace (snd r)) = [(argv ! 1, exaggeration, None)]"])
       (use args ex that in \<open>simp add: main_defs wp_simps Let_def start_def generate_calls_def\<close>)
  from sub1 run1 sub2 run2 show ?thesis by blast
qed

theorem tuning_values_reach_generate_witness:
  "generate_calls (events (main1 stub_world
       [''chatterbox-tts.py'', ''Hello'', ''out/hello.wav'', ''0.8'', ''0.3''] (start [])))
     = [(''Hello'', 0x3FE999999999999A, Some 0x3FD3333333333333)] \<and>
   generate_calls (events (main2 stub_world
       [''chatterbox-tts.py'', ''Hello'', ''out/hello.wav'', ''0.8'', ''0.3''] (start [])))
     = [(''Hello'', 0x3FE999999999999A, None)] \<and>
   generate_calls (events (main1 stub_world [''chatterbox-tts.py'', ''Hello'', ''out/hello.wav''] (start [])))
     = [(''Hello'', half, Some half)] \<and>
   generate_calls (events (main2 stub_world [''chatterbox-tts.py'', ''Hello'', ''out/hello.wav''] (start [])))
     = [(''Hello'', half, None)]"
  using tuning_values_reach_generate
          [of "[''chatterbox-tts.py'', ''Hello'', ''out/hello.wav'', ''0.8'', ''0.3'']" stub_world
              "0x3FE999999999999A" "0x3FD3333333333333" "[]" False "()" "()"]
        tuning_values_reach_generate
          [of "[''chatterbox-tts.py'', ''Hello'', ''out/hello.wav'']" stub_world
              half half "[]" False "()" "()"]
  by (simp add: stub_world_def stub_float_def)

section \<open>Device and sample rate of run-chatterbox.py\<close>

text \<open>
  C3. In every run of the second script, whatever the collaborators answer: the model is
  loaded on no other device than \<open>cpu\<close>, the audio writer is called with no other sample
  rate than 24000 (and no other path than \<open>argv[2]\<close>), and the model's \<open>sr\<close> is never
  read: the run is the same whatever \<open>sr\<close> the model reports. When the run gets as far
  as the load, the device requested is \<open>cpu\<close>; when it gets as far as the save,
  the rate passed is 24000.
\<close>

theorem run_chatterbox_forces_cpu_and_24000:
  "set (load_devices (events (main2 w argv (start f)))) \<subseteq> {''cpu''} \<and>
   set (save_calls (events (main2 w argv (start f)))) \<subseteq> {(argv ! 2, 24000)} \<and>
   ReadSr \<notin> set (events (main2 w argv (start f))) \<and>
   main2 (w\<lparr>model_sr := reported\<rparr>) argv (start f) = main2 w argv (start f) \<and>
   (3 \<le> length argv \<and>
    (if 3 < length argv then py_float w (argv ! 3) = Inr exaggeration else exaggeration = half) \<and>
    import_module w ''torch'' = None \<and> set_num_threads w 2 = None \<and>
    import_module w ''chatterbox.tts'' = None
    \<longrightarrow> load_devices (events (main2 w argv (start f))) = [''cpu''] \<and>
        (from_pretrained w ''cpu'' = Inr model \<and>
         generate w model (argv ! 1) exaggeration None = Inr wav \<and>
         import_module w ''torchaudio'' = None \<and>
         makedirs w f (if dirname w (argv ! 2) \<noteq> [] then dirname w (argv ! 2) else ''.'') = (None, f')
         \<longrightarrow> save_calls (events (main2 w argv (start f))) = [(argv ! 2, 24000)]))"
proof -
  have dev: "set (load_devices (events (main2 w argv (start f)))) \<subseteq> {''cpu''}"
    unfolding events_def
    by (rule wpI [where Q = "\<lambda>r. set (load_devices (trace (snd r))) \<subseteq> {''cpu''}"])
       (simp add: main_defs wp_simps Let_def start_def load_devices_def)
  have rate: "set (save_calls (events (main2 w argv (start f)))) \<subseteq> {(argv ! 2, 24000)}"
    unfolding events_def
    by (rule wpI [where Q = "\<lambda>r. set (save_calls (trace (snd r))) \<subseteq> {(argv ! 2, 24000)}"])
       (simp add: main_defs wp_simps Let_def start_def save_calls_def)
  have nosr: "ReadSr \<notin> set (events (main2 w argv (start f)))"
    unfolding events_def
    by (rule wpI [where Q = "\<lambda>r. ReadSr \<notin> set (trace (snd r))"])
       (simp add: main_defs wp_simps Let_def start_def)
  have same: "main2 (w\<lparr>model_sr := reported\<rparr>) argv (start f) = main2 w argv (start f)"
    by (simp add: main2_ignores_model_sr)
  have load: "load_devices (events (main2 w argv (start f))) = [''cpu'']"
    if "3 \<le> length argv"
      and "if 3 < length argv then py_float w (argv ! 3) = Inr exaggeration else exaggeration = half"
      and "import_module w ''torch'' = None" "set_num_threads w 2 = None"
      and "import_module w ''chatterbox.tts'' = None"
    unfolding events_def
    by (rule wpI [where Q = "\<lambda>r. load_devices (trace (snd r)) = [''cpu'']"])
       (use that in \<open>simp add: wp_main2 [OF that(1,2)] body_defs wp_simps Let_def start_def load_devices_def\<close>)
  have saved: "save_calls (events (main2 w argv (start f))) = [(argv ! 2, 24000)]"
    if "3 \<le> length argv"
      and "if 3 < length argv then py_float w (argv ! 3) = Inr exaggeration else exaggeration = half"
      and "import_module w ''torch'' = None" "set_num_threads w 2 = None"
      and "import_module w ''chatterbox.tts'' = None"
      and "from_pretrained w ''cpu'' = Inr model"
      and "generate w model (argv ! 1) exaggeration None = Inr wav"
      and "import_module w ''torchaudio'' = None"
      and "makedirs w f (if dirname w (argv ! 2) \<noteq> [] then dirname w (argv ! 2) else ''.'') = (None, f')"
    unfolding events_def
    by (rule wpI [where Q = "\<lambda>r. save_calls (trace (snd r)) = [(argv ! 2, 24000)]"])
       (use that in \<open>simp add: wp_main2 [OF that(1,2)] body_defs wp_simps Let_def start_def save_calls_def\<close>)
  from dev rate nosr same load saved show ?thesis by blast
qed

theorem run_chatterbox_forces_cpu_and_24000_witness:
  "model_sr stub_world () = 44100 \<and>
   load_devices (events (main2 stub_world [''run-chatterbox.py'', ''Hello'', ''out/hello.wav''] (start [])))
     = [''cpu''] \<and>
   save_calls (events (main2 stub_world [''run-chatterbox.py'', ''Hello'', ''out/hello.wav''] (start [])))
     = [(''out/hello.wav'', 24000)] \<and>
   ReadSr \<notin> set (events (main2 stub_world [''run-chatterbox.py'', ''Hello'', ''out/hello.wav''] (start [])))"
  using run_chatterbox_forces_cpu_and_24000
          [of stub_world "[''run-chatterbox.py'', ''Hello'', ''out/hello.wav'']" "[]" "\<lambda>m. 8000" half
              "()" 5 "[''out'']"]
  by (simp add: stub_world_def posix_dirname_def rstrip_slash_def)

section \<open>When generation fails\<close>

text \<open>
  C4, as stated: whenever \<open>generate\<close> raises, the process exits with status 1 and prints
  an error line with the exception's message. The second script does not: when the model
  raises a \<open>MemoryError\<close> it prints its fixed out-of-memory line and exits with status 2.
\<close>

theorem generate_memory_error_counterexample:
  "generate (stub_generate_raises (MemoryError ''cannot allocate'')) () ''Hello'' half None
     = Inl (MemoryError ''cannot allocate'') \<and>
   status (main2 (stub_generate_raises (MemoryError ''cannot allocate''))
             [''run-chatterbox.py'', ''Hello'', ''out/hello.wav''] (start [])) = Exited 2 \<and>
   last (events (main2 (stub_generate_raises (MemoryError ''cannot allocate''))
             [''run-chatterbox.py'', ''Hello'', ''out/hello.wav''] (start [])))
     = Print ''[Chatterbox] ERROR: Out of memory. Close some applications and try again.''"
  by (simp add: main_defs run_simps run_try_except run_defs stub_generate_raises_def stub_world_def Let_def)

text \<open>
  C4, amended. When \<open>generate\<close> raises \<open>e\<close>, the first script prints
  \<open>[Chatterbox] ERROR: \<close> followed by \<open>str(e)\<close> as its last line and exits with status 1.
  The second does the same unless \<open>e\<close> is a \<open>MemoryError\<close>; then its last line is the
  out-of-memory line and the status is 2. In both scripts no call to the file system is made
  (no \<open>exists\<close>, no \<open>makedirs\<close>, no \<open>save\<close>) and the file system is as it was.
\<close>

theorem generate_raises_handled:
  "(3 \<le> length argv \<and>
    (if 3 < length argv then py_float w (argv ! 3) = Inr exaggeration else exaggeration = half) \<and>
    (if 4 < length argv then py_float w (argv ! 4) = Inr cfg else cfg = half) \<and>
    import_module w ''torch'' = None \<and> import_module w ''chatterbox.tts'' = None \<and>
    cuda_is_available w = Inr available \<and>
    from_pretrained w (if available then ''cuda'' else ''cpu'') = Inr model1 \<and>
    generate w model1 (argv ! 1) exaggeration (Some cfg) = Inl e
    \<longrightarrow> status (main1 w argv (start f)) = Exited 1 \<and>
        last (events (main1 w argv (start f))) = Print (''[Chatterbox] ERROR: '' @ str_error e) \<and>
        fs_calls (events (main1 w argv (start f))) = [] \<and>
        final_fs (main1 w argv (start f)) = f) \<and>
   (3 \<le> length argv \<and>
    (if 3 < length argv then py_float w (argv ! 3) = Inr exaggeration else exaggeration = half) \<and>
    import_module w ''torch'' = None \<and> set_num_threads w 2 = None \<and>
    import_module w ''chatterbox.tts'' = None \<and>
    from_pretrained w ''cpu'' = Inr model2 \<and>
    generate w model2 (argv ! 1) exaggeration None = Inl e
    \<longrightarrow> status (main2 w argv (start f)) = (if is_MemoryError e then Exited 2 else Exited 1) \<and>
        last (events (main2 w argv (start f))) =
          Print (if is_MemoryError e
                 then ''[Chatterbox] ERROR: Out of memory. Close some applications and try again.''
                 else ''[Chatterbox] ERROR: '' @ str_error e) \<and>
        fs_calls (events (main2 w argv (start f))) = [] \<and>
        final_fs (main2 w argv (start f)) = f)"
proof -
  have one: "status (main1 w argv (start f)) = Exited 1 \<and>
        last (events (main1 w argv (start f))) = Print (''[Chatterbox] ERROR: '' @ str_error e) \<and>
        fs_calls (events (main1 w argv (start f))) = [] \<and>
        final_fs (main1 w argv (start f)) = f"
    if "3 \<le> length argv"
      and "if 3 < length argv then py_float w (argv ! 3) = Inr exaggeration else exaggeration = half"
      and "if 4 < length argv then py_float w (argv ! 4) = Inr cfg else cfg = half"
      and "import_module w ''torch'' = None" "import_module w ''chatterbox.tts'' = None"
      and "cuda_is_available w = Inr available"
      and "from_pretrained w (if available then ''cuda'' else ''cpu'') = Inr model1"
      and "generate w model1 (argv ! 1) exaggeration (Some cfg) = Inl e"
    by (rule wpI [where Q = "\<lambda>r. status r = Exited 1 \<and>
            last (events r) = Print (''[Chatterbox] ERROR: '' @ str_error e) \<and>
            fs_calls (events r) = [] \<and> final_fs r = f"])
       (use that in \<open>simp add: wp_main1 [OF that(1,2,3)] body_defs wp_simps Let_def run_defs fs_calls_def\<close>)
  have two: "status (main2 w argv (start f)) = (if is_MemoryError e then Exited 2 else Exited 1) \<and>
        last (events (main2 w argv (start f))) =
          Print (if is_MemoryError e
                 then ''[Chatterbox] ERROR: Out of memory. Close some applications and try again.''
                 else ''[Chatterbox] ERROR: '' @ str_error e) \<and>
        fs_calls (events (main2 w argv (start f))) = [] \<and>
        final_fs (main2 w argv (start f)) = f"
    if "3 \<le> length argv"
      and "if 3 < length argv then py_float w (argv ! 3) = Inr exaggeration else exaggeration = half"
      and "import_module w ''torch'' = None" "set_num_threads w 2 = None"
      and "import_module w ''chatterbox.tts'' = None"
      and "from_pretrained w ''cpu'' = Inr model2"
      and "generate w model2 (argv ! 1) exaggeration None = Inl e"
    by (rule wpI [where Q = "\<lambda>r. status r = (if is_MemoryError e then Exited 2 else Exited 1) \<and>
            last (events r) =
              Print (if is_MemoryError e
                 then ''[Chatterbox] ERROR: Out of memory. Close some applications and try again.''
                 else ''[Chatterbox] ERROR: '' @ str_error e) \<and>
            fs_calls (events r) = [] \<and> final_fs r = f"])
       (use that in \<open>simp add: wp_main2 [OF that(1,2)] body_defs wp_simps Let_def run_defs fs_calls_def\<close>)
  from one two show ?thesis by blast
qed

theorem generate_raises_handled_witness:
  "generate (stub_generate_raises (OtherError ''RuntimeError'' ''boom'')) () ''Hello'' half (Some half)
     = Inl (OtherError ''RuntimeError'' ''boom'') \<and>
   status (main1 (stub_generate_raises (OtherError ''RuntimeError'' ''boom''))
             [''chatterbox-tts.py'', ''Hello'', ''out/hello.wav''] (start [])) = Exited 1 \<and>
   last (events (main1 (stub_generate_raises (OtherError ''RuntimeError'' ''boom''))
             [''chatterbox-tts.py'', ''Hello'', ''out/hello.wav''] (start [])))
     = Print ''[Chatterbox] ERROR: boom'' \<and>
   final_fs (main1 (stub_generate_raises (OtherError ''RuntimeError'' ''boom''))
             [''chatterbox-tts.py'', ''Hello'', ''out/hello.wav''] (start [])) = [] \<and>
   status (main2 (stub_generate_raises (OtherError ''RuntimeError'' ''boom''))
             [''chatterbox-tts.py'', ''Hello'', ''out/hello.wav''] (start [])) = Exited 1 \<and>
   last (events (main2 (stub_generate_raises (OtherError ''RuntimeError'' ''boom''))
             [''chatterbox-tts.py'', ''Hello'', ''out/hello.wav''] (start [])))
     = Print ''[Chatterbox] ERROR: boom'' \<and>
   final_fs (main2 (stub_generate_raises (OtherError ''RuntimeError'' ''boom''))
             [''chatterbox-tts.py'', ''Hello'', ''out/hello.wav''] (start [])) = []"
  using generate_raises_handled
          [of "[''chatterbox-tts.py'', ''Hello'', ''out/hello.wav'']"
              "stub_generate_raises (OtherError ''RuntimeError'' ''boom'')"
              half half False "()" "OtherError ''RuntimeError'' ''boom''" "[]" "()"]
  by (simp add: stub_generate_raises_def stub_world_def)

section \<open>Malformed numbers\<close>

text \<open>
  C6. When \<open>float()\<close> rejects \<open>argv[3]\<close> (either script), or accepts \<open>argv[3]\<close> and
  rejects \<open>argv[4]\<close> (first script), the error leaves \<open>main\<close> uncaught. The trace of the
  run is empty: nothing was printed, so no \<open>[Chatterbox] ERROR:\<close> line, nothing was
  imported and no model was loaded.
\<close>

theorem malformed_number_uncaught:
  "(3 < length argv \<and> py_float w (argv ! 3) = Inl e
    \<longrightarrow> status (main1 w argv (start f)) = Traceback e \<and> events (main1 w argv (start f)) = [] \<and>
        final_fs (main1 w argv (start f)) = f \<and>
        status (main2 w argv (start f)) = Traceback e \<and> events (main2 w argv (start f)) = [] \<and>
        final_fs (main2 w argv (start f)) = f) \<and>
   (4 < length argv \<and> py_float w (argv ! 3) = Inr x \<and> py_float w (argv ! 4) = Inl e
    \<longrightarrow> status (main1 w argv (start f)) = Traceback e \<and> events (main1 w argv (start f)) = [] \<and>
        final_fs (main1 w argv (start f)) = f)"
  by (simp add: main1_def main2_def run_simps run_defs Let_def)

theorem malformed_number_uncaught_witness:
  "py_float stub_world ''loud'' = Inl (OtherError ''ValueError'' ''could not convert string to float: loud'') \<and>
   status (main1 stub_world [''chatterbox-tts.py'', ''Hello'', ''out.wav'', ''loud''] (start []))
     = Traceback (OtherError ''ValueError'' ''could not convert string to float: loud'') \<and>
   events (main1 stub_world [''chatterbox-tts.py'', ''Hello'', ''out.wav'', ''loud''] (start [])) = [] \<and>
   status (main2 stub_world [''chatterbox-tts.py'', ''Hello'', ''out.wav'', ''loud''] (start []))
     = Traceback (OtherError ''ValueError'' ''could not convert string to float: loud'') \<and>
   events (main2 stub_world [''chatterbox-tts.py'', ''Hello'', ''out.wav'', ''loud''] (start [])) = [] \<and>
   status (main1 stub_world [''chatterbox-tts.py'', ''Hello'', ''out.wav'', ''0.8'', ''fast''] (start []))
     = Traceback (OtherError ''ValueError'' ''could not convert string to float: fast'') \<and>
   events (main1 stub_world [''chatterbox-tts.py'', ''Hello'', ''out.wav'', ''0.8'', ''fast''] (start [])) = []"
  using malformed_number_uncaught
          [of "[''chatterbox-tts.py'', ''Hello'', ''out.wav'', ''loud'']" stub_world
              "OtherError ''ValueError'' ''could not convert string to float: loud''" "[]" 0]
        malformed_number_uncaught
          [of "[''chatterbox-tts.py'', ''Hello'', ''out.wav'', ''0.8'', ''fast'']" stub_world
              "OtherError ''ValueError'' ''could not convert string to float: fast''" "[]"
              "0x3FE999999999999A"]
  by (simp add: stub_world_def stub_float_def)

section \<open>Device selection of chatterbox-tts.py\<close>

text \<open>
  C9. When \<open>torch.cuda.is_available()\<close> answers \<open>available\<close>, the first script asks the
  model factory for no other device than \<open>cuda\<close> if \<open>available\<close> and \<open>cpu\<close> if not; when
  the imports succeed, the factory is called, once, with that device.
\<close>

theorem chatterbox_tts_device_by_availability:
  "cuda_is_available w = Inr available \<Longrightarrow>
     set (load_devices (events (main1 w argv (start f)))) \<subseteq> {if available then ''cuda'' else ''cpu''} \<and>
     (3 \<le> length argv \<and>
      (if 3 < length argv then py_float w (argv ! 3) = Inr exaggeration else exaggeration = half) \<and>
      (if 4 < length argv then py_float w (argv ! 4) = Inr cfg else cfg = half) \<and>
      import_module w ''torch'' = None \<and> import_module w ''chatterbox.tts'' = None
      \<longrightarrow> load_devices (events (main1 w argv (start f))) = [if available then ''cuda'' else ''cpu''])"
proof -
  assume cuda: "cuda_is_available w = Inr available"
  have sub: "set (load_devices (events (main1 w argv (start f)))) \<subseteq> {if available then ''cuda'' else ''cpu''}"
    unfolding events_def
    by (rule wpI [where Q = "\<lambda>r. set (load_devices (trace (snd r))) \<subseteq> {if available then ''cuda'' else ''cpu''}"])
       (use cuda in \<open>simp add: main_defs wp_simps Let_def start_def load_devices_def\<close>)
  have run: "load_devices (events (main1 w argv (start f))) = [if available then ''cuda'' else ''cpu'']"
    if "3 \<le> length argv"
      and "if 3 < length argv then py_float w (argv ! 3) = Inr exaggeration else exaggeration = half"
      and "if 4 < length argv then py_float w (argv ! 4) = Inr cfg else cfg = half"
      and "import_module w ''torch'' = None" "import_module w ''chatterbox.tts'' = None"
    unfolding events_def
    by (rule wpI [where Q = "\<lambda>r. load_devices (trace (snd r)) = [if available then ''cuda'' else ''cpu'']"])
       (use cuda that in \<open>simp add: wp_main1 [OF that(1,2,3)] body_defs wp_simps Let_def start_def load_devices_def\<close>)
  from sub run show ?thesis by blast
qed

theorem chatterbox_tts_device_by_availability_witness:
  "cuda_is_available stub_with_cuda = Inr True \<and>
   load_devices (events (main1 stub_with_cuda [''chatterbox-tts.py'', ''Hello'', ''out.wav''] (start [])))
     = [''cuda''] \<and>
   cuda_is_available stub_world = Inr False \<and>
   load_devices (events (main1 stub_world [''chatterbox-tts.py'', ''Hello'', ''out.wav''] (start [])))
     = [''cpu'']"
  using chatterbox_tts_device_by_availability
          [of stub_with_cuda True "[''chatterbox-tts.py'', ''Hello'', ''out.wav'']" "[]" half half]
        chatterbox_tts_device_by_availability
          [of stub_world False "[''chatterbox-tts.py'', ''Hello'', ''out.wav'']" "[]" half half]
  by (simp add: stub_with_cuda_def stub_world_def)

section \<open>Extra arguments\<close>

lemma take_eq_nth:
  assumes "take n xs = take n ys" and "i < n"
  shows "(i < length xs) = (i < length ys)" and "i < length xs \<Longrightarrow> xs ! i = ys ! i"
proof -
  from assms(1) have len: "min (length xs) n = min (length ys) n"
    by (metis length_take)
  with assms(2) show "(i < length xs) = (i < length ys)" by linarith
  assume "i < length xs"
  with assms(2) have "take n xs ! i = xs ! i" by simp
  moreover from \<open>i < length xs\<close> assms(2) len have "take n ys ! i = ys ! i" by simp
  ultimately show "xs ! i = ys ! i" using assms(1) by simp
qed

text \<open>
  C10. Two runs of the second script whose argument lists agree on \<open>argv[0..3]\<close> are the
  same run from the same state: same outcome, same trace (prints and calls), same file
  system. The same holds for the first script when they agree on \<open>argv[0..4]\<close>. Whether
  there is a further argument, and what it is, makes no difference.
\<close>

theorem extra_arguments_ignored:
  "(take 4 argv = take 4 argv' \<longrightarrow> main2 w argv s = main2 w argv' s) \<and>
   (take 5 argv = take 5 argv' \<longrightarrow> main1 w argv s = main1 w argv' s)"
proof (intro conjI impI)
  assume eq: "take 4 argv = take 4 argv'"
  have l2: "(2 < length argv) = (2 < length argv')" and l3: "(3 < length argv) = (3 < length argv')"
    using take_eq_nth(1) [OF eq] by simp_all
  have n1: "2 < length argv \<Longrightarrow> argv ! 1 = argv' ! 1"
    and n2: "2 < length argv \<Longrightarrow> argv ! 2 = argv' ! 2"
    and n3: "3 < length argv \<Longrightarrow> argv ! 3 = argv' ! 3"
    using take_eq_nth(2) [OF eq] by simp_all
  show "main2 w argv s = main2 w argv' s"
  proof (cases "2 < length argv")
    case False
    with l2 show ?thesis by (simp add: main2_def not_less)
  next
    case True
    with l2 l3 n1 n2 n3 show ?thesis
      by (cases "3 < length argv") (simp_all add: main2_def not_less)
  qed
next
  assume eq: "take 5 argv = take 5 argv'"
  have l2: "(2 < length argv) = (2 < length argv')" and l3: "(3 < length argv) = (3 < length argv')"
    and l4: "(4 < length argv) = (4 < length argv')"
    using take_eq_nth(1) [OF eq] by simp_all
  have n1: "2 < length argv \<Longrightarrow> argv ! 1 = argv' ! 1"
    and n2: "2 < length argv \<Longrightarrow> argv ! 2 = argv' ! 2"
    and n3: "3 < length argv \<Longrightarrow> argv ! 3 = argv' ! 3"
    and n4: "4 < length argv \<Longrightarrow> argv ! 4 = argv' ! 4"
    using take_eq_nth(2) [OF eq] by simp_all
  show "main1 w argv s = main1 w argv' s"
  proof (cases "2 < length argv")
    case False
    with l2 show ?thesis by (simp add: main1_def not_less)
  next
    case True
    with l2 l3 l4 n1 n2 n3 n4 show ?thesis
      by (cases "3 < length argv"; cases "4 < length argv") (simp_all add: main1_def not_less)
  qed
qed

theorem extra_arguments_ignored_witness:
  "take 4 [''run-chatterbox.py'', ''Hello'', ''out.wav'', ''0.8'']
     = take 4 [''run-chatterbox.py'', ''Hello'', ''out.wav'', ''0.8'', ''0.3'', ''more''] \<and>
   main2 stub_world [''run-chatterbox.py'', ''Hello'', ''out.wav'', ''0.8''] (start [])
     = main2 stub_world [''run-chatterbox.py'', ''Hello'', ''out.wav'', ''0.8'', ''0.3'', ''more''] (start []) \<and>
   take 5 [''chatterbox-tts.py'', ''Hello'', ''out.wav'', ''0.8'', ''0.3'']
     = take 5 [''chatterbox-tts.py'', ''Hello'', ''out.wav'', ''0.8'', ''0.3'', ''more''] \<and>
   main1 stub_world [''chatterbox-tts.py'', ''Hello'', ''out.wav'', ''0.8'', ''0.3''] (start [])
     = main1 stub_world [''chatterbox-tts.py'', ''Hello'', ''out.wav'', ''0.8'', ''0.3'', ''more''] (start [])"
  using extra_arguments_ignored
          [of "[''run-chatterbox.py'', ''Hello'', ''out.wav'', ''0.8'']"
              "[''run-chatterbox.py'', ''Hello'', ''out.wav'', ''0.8'', ''0.3'', ''more'']"
              stub_world "start []"]
        extra_arguments_ignored
          [of "[''chatterbox-tts.py'', ''Hello'', ''out.wav'', ''0.8'', ''0.3'']"
              "[''chatterbox-tts.py'', ''Hello'', ''out.wav'', ''0.8'', ''0.3'', ''more'']"
              stub_world "start []"]
  by simp

section \<open>Exit codes\<close>

text \<open>
  C5. With arguments missing, both scripts end with status 1. Otherwise (the numbers having
  parsed) the status is decided by how the \<open>try\<close> block ends. First script: 0 when the
  block runs to its end, 1 when it raises, a \<open>MemoryError\<close> included. Second script: the
  block ends in \<open>sys.exit(0)\<close> or \<open>sys.exit(1)\<close>, which give 0 and 1, or raises, which
  gives 2 for a \<open>MemoryError\<close> and 1 for anything else; no other status occurs.
\<close>

theorem exit_code_mapping:
  "(length argv < 3 \<longrightarrow>
      status (main1 w argv (start f)) = Exited 1 \<and> status (main2 w argv (start f)) = Exited 1) \<and>
   (3 \<le> length argv \<and>
    (if 3 < length argv then py_float w (argv ! 3) = Inr exaggeration else exaggeration = half) \<longrightarrow>
      ((if 4 < length argv then py_float w (argv ! 4) = Inr cfg else cfg = half) \<longrightarrow>
         status (main1 w argv (start f)) =
           (case fst (try_body1 w (argv ! 1) (argv ! 2) exaggeration cfg (start f)) of
              Inr u \<Rightarrow> Exited 0
            | Inl x \<Rightarrow> Exited 1)) \<and>
      status (main2 w argv (start f)) =
        (case fst (try_body2 w (argv ! 1) (argv ! 2) exaggeration (start f)) of
           Inr u \<Rightarrow> Exited 0
         | Inl (SystemExit n) \<Rightarrow> Exited n
         | Inl (Raised e) \<Rightarrow> if is_MemoryError e then Exited 2 else Exited 1) \<and>
      status (main2 w argv (start f)) \<in> {Exited 0, Exited 1, Exited 2})"
proof -
  have missing: "status (main1 w argv (start f)) = Exited 1 \<and> status (main2 w argv (start f)) = Exited 1"
    if "length argv < 3"
    using that by (simp add: main1_def main2_def run_simps run_defs)
  have one: "status (main1 w argv (start f)) =
           (case fst (try_body1 w (argv ! 1) (argv ! 2) exaggeration cfg (start f)) of
              Inr u \<Rightarrow> Exited 0
            | Inl x \<Rightarrow> Exited 1)"
    if "3 \<le> length argv"
      and "if 3 < length argv then py_float w (argv ! 3) = Inr exaggeration else exaggeration = half"
      and "if 4 < length argv then py_float w (argv ! 4) = Inr cfg else cfg = half"
    by (rule wpI [where Q = "\<lambda>r. status r =
           (case fst (try_body1 w (argv ! 1) (argv ! 2) exaggeration cfg (start f)) of
              Inr u \<Rightarrow> Exited 0
            | Inl x \<Rightarrow> Exited 1)"])
       (auto simp: wp_main1 [OF that] body_defs wp_simps run_simps Let_def run_defs)
  have two: "status (main2 w argv (start f)) =
        (case fst (try_body2 w (argv ! 1) (argv ! 2) exaggeration (start f)) of
           Inr u \<Rightarrow> Exited 0
         | Inl (SystemExit n) \<Rightarrow> Exited n
         | Inl (Raised e) \<Rightarrow> if is_MemoryError e then Exited 2 else Exited 1)"
    if "3 \<le> length argv"
      and "if 3 < length argv then py_float w (argv ! 3) = Inr exaggeration else exaggeration = half"
    by (rule wpI [where Q = "\<lambda>r. status r =
        (case fst (try_body2 w (argv ! 1) (argv ! 2) exaggeration (start f)) of
           Inr u \<Rightarrow> Exited 0
         | Inl (SystemExit n) \<Rightarrow> Exited n
         | Inl (Raised e) \<Rightarrow> if is_MemoryError e then Exited 2 else Exited 1)"])
       (auto simp: wp_main2 [OF that] body_defs wp_simps run_simps Let_def run_defs)
  have range: "status (main2 w argv (start f)) \<in> {Exited 0, Exited 1, Exited 2}"
    if "3 \<le> length argv"
      and "if 3 < length argv then py_float w (argv ! 3) = Inr exaggeration else exaggeration = half"
    by (rule wpI [where Q = "\<lambda>r. status r \<in> {Exited 0, Exited 1, Exited 2}"])
       (simp add: wp_main2 [OF that] body_defs wp_simps Let_def run_defs)
  from missing one two range show ?thesis by blast
qed

theorem exit_code_mapping_witness:
  "status (main1 stub_world [''chatterbox-tts.py'', ''Hello'', ''out.wav''] (start [])) = Exited 0 \<and>
   status (main2 stub_world [''chatterbox-tts.py'', ''Hello'', ''out.wav''] (start [])) = Exited 0 \<and>
   status (main1 (stub_generate_raises (MemoryError ''cannot allocate''))
             [''chatterbox-tts.py'', ''Hello'', ''out.wav''] (start [])) = Exited 1 \<and>
   status (main2 (stub_generate_raises (MemoryError ''cannot allocate''))
             [''chatterbox-tts.py'', ''Hello'', ''out.wav''] (start [])) = Exited 2 \<and>
   status (main1 (stub_generate_raises (OtherError ''RuntimeError'' ''boom''))
             [''chatterbox-tts.py'', ''Hello'', ''out.wav''] (start [])) = Exited 1 \<and>
   status (main2 (stub_generate_raises (OtherError ''RuntimeError'' ''boom''))
             [''chatterbox-tts.py'', ''Hello'', ''out.wav''] (start [])) = Exited 1 \<and>
   status (main1 stub_world [''chatterbox-tts.py''] (start [])) = Exited 1 \<and>
   status (main2 stub_world [''chatterbox-tts.py''] (start [])) = Exited 1"
  using exit_code_mapping
          [of "[''chatterbox-tts.py'', ''Hello'', ''out.wav'']" stub_world "[]" half half]
        exit_code_mapping
          [of "[''chatterbox-tts.py'', ''Hello'', ''out.wav'']"
              "stub_generate_raises (MemoryError ''cannot allocate'')" "[]" half half]
        exit_code_mapping
          [of "[''chatterbox-tts.py'', ''Hello'', ''out.wav'']"
              "stub_generate_raises (OtherError ''RuntimeError'' ''boom'')" "[]" half half]
        exit_code_mapping [of "[''chatterbox-tts.py'']" stub_world "[]" half half]
  by (simp add: body_defs run_simps Let_def start_def stub_generate_raises_def stub_world_def
        posix_dirname_def rstrip_slash_def)

section \<open>The output directory\<close>

text \<open>
  C7. Take a run that gets as far as the save step (generation and the import of
  \<open>torchaudio\<close> succeed) with an output path whose directory part \<open>d\<close> is not empty and
  does not exist. Both scripts call \<open>makedirs\<close> on \<open>d\<close> before any call of the audio
  writer (the first after asking whether \<open>d\<close> exists, the second at once). If \<open>makedirs\<close>
  raises, the writer is not called. If it returns, \<open>d\<close> exists in the file system it
  leaves (this is what \<open>os.makedirs\<close> promises, and the one assumption made about it), the
  writer is called next, on that file system, and the file system at the end of the run is
  the one the writer leaves.
\<close>

theorem parent_directory_created_before_save:
  assumes contract: "\<And>g p g'. makedirs w g p = (None, g') \<Longrightarrow> path_exists w g' p"
    and parent: "dirname w (argv ! 2) = d" "d \<noteq> []" "\<not> path_exists w f d"
    and made: "makedirs w f d = (outcome, f')"
    and args: "3 \<le> length argv"
      "if 3 < length argv then py_float w (argv ! 3) = Inr exaggeration else exaggeration = half"
    and imps: "import_module w ''torch'' = None" "import_module w ''chatterbox.tts'' = None"
      "import_module w ''torchaudio'' = None"
  shows
    "((if 4 < length argv then py_float w (argv ! 4) = Inr cfg else cfg = half) \<and>
      cuda_is_available w = Inr available \<and>
      from_pretrained w (if available then ''cuda'' else ''cpu'') = Inr model1 \<and>
      generate w model1 (argv ! 1) exaggeration (Some cfg) = Inr wav1
      \<longrightarrow> fs_calls (events (main1 w argv (start f))) =
            [PathExists d, MakeDirs d] @
            (if outcome = None then [Save (argv ! 2) (model_sr w model1)] else []) \<and>
          (outcome = None \<longrightarrow>
             path_exists w f' d \<and>
             final_fs (main1 w argv (start f)) = snd (save w f' (argv ! 2) wav1 (model_sr w model1)))) \<and>
     (set_num_threads w 2 = None \<and>
      from_pretrained w ''cpu'' = Inr model2 \<and>
      generate w model2 (argv ! 1) exaggeration None = Inr wav2
      \<longrightarrow> take 2 (fs_calls (events (main2 w argv (start f)))) =
            MakeDirs d # (if outcome = None then [Save (argv ! 2) 24000] else []) \<and>
          (outcome = None \<longrightarrow>
             path_exists w f' d \<and>
             final_fs (main2 w argv (start f)) = snd (save w f' (argv ! 2) wav2 24000)))"
proof -
  have there: "path_exists w f' d" if "outcome = None"
    using contract made that by simp
  have one: "fs_calls (events (main1 w argv (start f))) =
            [PathExists d, MakeDirs d] @
            (if outcome = None then [Save (argv ! 2) (model_sr w model1)] else []) \<and>
          (outcome = None \<longrightarrow>
             final_fs (main1 w argv (start f)) = snd (save w f' (argv ! 2) wav1 (model_sr w model1)))"
    if "if 4 < length argv then py_float w (argv ! 4) = Inr cfg else cfg = half"
      and "cuda_is_available w = Inr available"
      and "from_pretrained w (if available then ''cuda'' else ''cpu'') = Inr model1"
      and "generate w model1 (argv ! 1) exaggeration (Some cfg) = Inr wav1"
    by (rule wpI [where Q = "\<lambda>r. fs_calls (events r) =
            [PathExists d, MakeDirs d] @
            (if outcome = None then [Save (argv ! 2) (model_sr w model1)] else []) \<and>
          (outcome = None \<longrightarrow>
             final_fs r = snd (save w f' (argv ! 2) wav1 (model_sr w model1)))"])
       (use parent made imps that in
          \<open>auto simp: wp_main1 [OF args that(1)] body_defs wp_simps Let_def run_defs fs_calls_def\<close>)
  have two: "take 2 (fs_calls (events (main2 w argv (start f)))) =
            MakeDirs d # (if outcome = None then [Save (argv ! 2) 24000] else []) \<and>
          (outcome = None \<longrightarrow>
             final_fs (main2 w argv (start f)) = snd (save w f' (argv ! 2) wav2 24000))"
    if "set_num_threads w 2 = None" "from_pretrained w ''cpu'' = Inr model2"
      and "generate w model2 (argv ! 1) exaggeration None = Inr wav2"
    by (rule wpI [where Q = "\<lambda>r. take 2 (fs_calls (events r)) =
            MakeDirs d # (if outcome = None then [Save (argv ! 2) 24000] else []) \<and>
          (outcome = None \<longrightarrow> final_fs r = snd (save w f' (argv ! 2) wav2 24000))"])
       (use parent made imps that in
          \<open>auto simp: wp_main2 [OF args] body_defs wp_simps Let_def run_defs fs_calls_def\<close>)
  show ?thesis by (intro conjI impI; (elim conjE)?) (simp_all add: there one two)
qed

theorem parent_directory_created_before_save_witness:
  "dirname stub_world ''out/hello.wav'' = ''out'' \<and>
   \<not> path_exists stub_world [] ''out'' \<and>
   makedirs stub_world [] ''out'' = (None, [''out'']) \<and>
   path_exists stub_world [''out''] ''out'' \<and>
   fs_calls (events (main1 stub_world [''chatterbox-tts.py'', ''Hello'', ''out/hello.wav''] (start [])))
     = [PathExists ''out'', MakeDirs ''out'', Save ''out/hello.wav'' 44100] \<and>
   final_fs (main1 stub_world [''chatterbox-tts.py'', ''Hello'', ''out/hello.wav''] (start []))
     = [''out/hello.wav'', ''out''] \<and>
   take 2 (fs_calls (events (main2 stub_world [''chatterbox-tts.py'', ''Hello'', ''out/hello.wav''] (start []))))
     = [MakeDirs ''out'', Save ''out/hello.wav'' 24000] \<and>
   final_fs (main2 stub_world [''chatterbox-tts.py'', ''Hello'', ''out/hello.wav''] (start []))
     = [''out/hello.wav'', ''out'']"
proof -
  have contract: "\<And>g p g'. makedirs stub_world g p = (None, g') \<Longrightarrow> path_exists stub_world g' p"
    by (auto simp: stub_world_def)
  show ?thesis
    using parent_directory_created_before_save
            [OF contract,
             where argv = "[''chatterbox-tts.py'', ''Hello'', ''out/hello.wav'']" and d = "''out''"
               and f = "[]" and outcome = None and f' = "[''out'']"
               and exaggeration = half and cfg = half and available = False
               and ?model1.0 = "()" and ?model2.0 = "()" and ?wav1.0 = 5 and ?wav2.0 = 5]
    by (simp add: stub_world_def posix_dirname_def rstrip_slash_def)
qed

section \<open>Reporting success in run-chatterbox.py\<close>

text \<open>
  C8. A run of the second script that ends with status 0 has called the audio writer, the
  output path exists in the file system the run leaves, and the last line printed is the
  success line with the size \<open>getsize\<close> reports for that path. After a save that returns:
  if the file exists (and has a size) the script prints that size in the success line and
  exits with status 0; if the file does not exist it prints
  \<open>[Chatterbox] ERROR: File not created\<close> and exits with status 1.
\<close>

theorem success_reported_after_checking_file:
  "(status (main2 w argv (start f)) = Exited 0 \<longrightarrow>
      Save (argv ! 2) 24000 \<in> set (events (main2 w argv (start f))) \<and>
      path_exists w (final_fs (main2 w argv (start f))) (argv ! 2) \<and>
      (\<exists>nbytes. getsize w (final_fs (main2 w argv (start f))) (argv ! 2) = Inr nbytes \<and>
         last (events (main2 w argv (start f))) =
           Print (''[Chatterbox] SUCCESS! Saved '' @ str_nat nbytes @ '' bytes to '' @ argv ! 2))) \<and>
   (3 \<le> length argv \<and>
    (if 3 < length argv then py_float w (argv ! 3) = Inr exaggeration else exaggeration = half) \<and>
    import_module w ''torch'' = None \<and> set_num_threads w 2 = None \<and>
    import_module w ''chatterbox.tts'' = None \<and>
    from_pretrained w ''cpu'' = Inr model \<and>
    generate w model (argv ! 1) exaggeration None = Inr wav \<and>
    import_module w ''torchaudio'' = None \<and>
    makedirs w f (if dirname w (argv ! 2) \<noteq> [] then dirname w (argv ! 2) else ''.'') = (None, f1) \<and>
    save w f1 (argv ! 2) wav 24000 = (None, f2)
    \<longrightarrow> (path_exists w f2 (argv ! 2) \<and> getsize w f2 (argv ! 2) = Inr nbytes
          \<longrightarrow> status (main2 w argv (start f)) = Exited 0 \<and>
              last (events (main2 w argv (start f))) =
                Print (''[Chatterbox] SUCCESS! Saved '' @ str_nat nbytes @ '' bytes to '' @ argv ! 2)) \<and>
        (\<not> path_exists w f2 (argv ! 2)
          \<longrightarrow> status (main2 w argv (start f)) = Exited 1 \<and>
              last (events (main2 w argv (start f))) = Print ''[Chatterbox] ERROR: File not created''))"
proof -
  have only: "status (main2 w argv (start f)) = Exited 0 \<longrightarrow>
      Save (argv ! 2) 24000 \<in> set (events (main2 w argv (start f))) \<and>
      path_exists w (final_fs (main2 w argv (start f))) (argv ! 2) \<and>
      (\<exists>nbytes. getsize w (final_fs (main2 w argv (start f))) (argv ! 2) = Inr nbytes \<and>
         last (events (main2 w argv (start f))) =
           Print (''[Chatterbox] SUCCESS! Saved '' @ str_nat nbytes @ '' bytes to '' @ argv ! 2))"
    by (rule wpI [where Q = "\<lambda>r. status r = Exited 0 \<longrightarrow>
            Save (argv ! 2) 24000 \<in> set (events r) \<and>
            path_exists w (final_fs r) (argv ! 2) \<and>
            (\<exists>nbytes. getsize w (final_fs r) (argv ! 2) = Inr nbytes \<and>
               last (events r) =
                 Print (''[Chatterbox] SUCCESS! Saved '' @ str_nat nbytes @ '' bytes to '' @ argv ! 2))"])
       (auto simp: main_defs wp_simps Let_def run_defs)
  have yes: "status (main2 w argv (start f)) = Exited 0 \<and>
              last (events (main2 w argv (start f))) =
                Print (''[Chatterbox] SUCCESS! Saved '' @ str_nat nbytes @ '' bytes to '' @ argv ! 2)"
    if "3 \<le> length argv"
      and "if 3 < length argv then py_float w (argv ! 3) = Inr exaggeration else exaggeration = half"
      and "import_module w ''torch'' = None" "set_num_threads w 2 = None"
      and "import_module w ''chatterbox.tts'' = None"
      and "from_pretrained w ''cpu'' = Inr model"
      and "generate w model (argv ! 1) exaggeration None = Inr wav"
      and "import_module w ''torchaudio'' = None"
      and "makedirs w f (if dirname w (argv ! 2) \<noteq> [] then dirname w (argv ! 2) else ''.'') = (None, f1)"
      and "save w f1 (argv ! 2) wav 24000 = (None, f2)"
      and "path_exists w f2 (argv ! 2)" "getsize w f2 (argv ! 2) = Inr nbytes"
    by (rule wpI [where Q = "\<lambda>r. status r = Exited 0 \<and>
              last (events r) =
                Print (''[Chatterbox] SUCCESS! Saved '' @ str_nat nbytes @ '' bytes to '' @ argv ! 2)"])
       (use that in \<open>simp add: wp_main2 [OF that(1,2)] body_defs wp_simps Let_def run_defs\<close>)
  have no: "status (main2 w argv (start f)) = Exited 1 \<and>
              last (events (main2 w argv (start f))) = Print ''[Chatterbox] ERROR: File not created''"
    if "3 \<le> length argv"
      and "if 3 < length argv then py_float w (argv ! 3) = Inr exaggeration else exaggeration = half"
      and "import_module w ''torch'' = None" "set_num_threads w 2 = None"
      and "import_module w ''chatterbox.tts'' = None"
      and "from_pretrained w ''cpu'' = Inr model"
      and "generate w model (argv ! 1) exaggeration None = Inr wav"
      and "import_module w ''torchaudio'' = None"
      and "makedirs w f (if dirname w (argv ! 2) \<noteq> [] then dirname w (argv ! 2) else ''.'') = (None, f1)"
      and "save w f1 (argv ! 2) wav 24000 = (None, f2)"
      and "\<not> path_exists w f2 (argv ! 2)"
    by (rule wpI [where Q = "\<lambda>r. status r = Exited 1 \<and>
              last (events r) = Print ''[Chatterbox] ERROR: File not created''"])
       (use that in \<open>simp add: wp_main2 [OF that(1,2)] body_defs wp_simps Let_def run_defs\<close>)
  show ?thesis
    by (rule conjI [OF only]) (use yes no in blast)
qed

theorem success_reported_after_checking_file_witness:
  "status (main2 stub_world [''run-chatterbox.py'', ''Hello'', ''out/hello.wav''] (start [])) = Exited 0 \<and>
   last (events (main2 stub_world [''run-chatterbox.py'', ''Hello'', ''out/hello.wav''] (start [])))
     = Print ''[Chatterbox] SUCCESS! Saved 96044 bytes to out/hello.wav'' \<and>
   status (main2 stub_save_writes_nothing [''run-chatterbox.py'', ''Hello'', ''out/hello.wav''] (start []))
     = Exited 1 \<and>
   last (events (main2 stub_save_writes_nothing [''run-chatterbox.py'', ''Hello'', ''out/hello.wav''] (start [])))
     = Print ''[Chatterbox] ERROR: File not created''"
  using success_reported_after_checking_file
          [where w = stub_world and argv = "[''run-chatterbox.py'', ''Hello'', ''out/hello.wav'']"
             and f = "[]" and exaggeration = half and model = "()" and wav = 5
             and ?f1.0 = "[''out'']" and ?f2.0 = "[''out/hello.wav'', ''out'']" and nbytes = 96044]
        success_reported_after_checking_file
          [where w = stub_save_writes_nothing
             and argv = "[''run-chatterbox.py'', ''Hello'', ''out/hello.wav'']"
             and f = "[]" and exaggeration = half and model = "()" and wav = 5
             and ?f1.0 = "[''out'']" and ?f2.0 = "[''out'']" and nbytes = 0]
  by (simp add: stub_save_writes_nothing_def stub_world_def posix_dirname_def rstrip_slash_def
        str_nat.simps digit_char_def)

end
